theory Spec2Isabelle
  imports Complex_Main "HOL-Library.Sublist"
begin

section \<open>Python values\<close>

text \<open>
  A Python \<^verbatim>\<open>str\<close> is modelled by its UTF-8 bytes: the keys and file names of the
  script are ASCII, its two labels and its messages contain Chinese text, written here
  byte by byte. The script only compares, concatenates and displays these strings.

  A \<^verbatim>\<open>float\<close> is modelled by the real number it denotes, or by one of the three
  non-finite values. The script moves floats from the form to the scaler and from the
  classifier to the result and computes nothing with them, so the rounding of binary
  floating point is not represented.
\<close>

datatype pyfloat = Finite real | PosInf | NegInf | NaN

text \<open>The values a cell of the input mapping may hold: the widgets give \<^verbatim>\<open>int\<close> and
  \<^verbatim>\<open>float\<close>; any other caller of the pipeline may also pass text.\<close>

datatype pyval = PyInt int | PyFloat pyfloat | PyStr string

text \<open>
  The exceptions that occur in the script. All of them are instances of Python's class
  \<^verbatim>\<open>Exception\<close>, which is what both \<^verbatim>\<open>except Exception\<close> clauses select; the
  interpreter's exit signals (\<^verbatim>\<open>KeyboardInterrupt\<close>, \<^verbatim>\<open>SystemExit\<close>), which are not, are
  outside the model.
  \<^item> \<open>FileNotFoundError\<close>: opening a path with no file;
  \<^item> \<open>KeyError\<close>: selecting a column that the frame does not have;
  \<^item> \<open>ValueError\<close>: a cell without a float conversion, or a value a library rejects;
  \<^item> \<open>IndexError\<close>: an index beyond the end of a sequence;
  \<^item> \<open>Raised msg\<close>: any other exception of joblib, the scaler or the classifier.
\<close>

datatype py_exn = FileNotFoundError | KeyError | ValueError | IndexError | Raised string

text \<open>Indexing a sequence with a non-negative constant, as in \<^verbatim>\<open>proba[1]\<close>.\<close>

definition getitem :: "'a list \<Rightarrow> nat \<Rightarrow> py_exn + 'a" where
  "getitem xs i = (if i < length xs then Inr (xs ! i) else Inl IndexError)"

section \<open>The one-row data frame\<close>

text \<open>
  \<^verbatim>\<open>inputs\<close> is a dict: an association list in insertion order, a key occurring once.
  \<^verbatim>\<open>pd.DataFrame([inputs])\<close> is the frame of one row whose columns are the keys in that
  order, so the same list stands for it.
\<close>

type_synonym 'a frame = "(string \<times> 'a) list"

text \<open>\<^verbatim>\<open>df[cols]\<close>: the columns named by \<open>cols\<close>, in the order of \<open>cols\<close>;
  \<^verbatim>\<open>KeyError\<close> when a name is not a column.\<close>

fun getitem_columns :: "'a frame \<Rightarrow> string list \<Rightarrow> py_exn + 'a frame" where
  "getitem_columns df [] = Inr []"
| "getitem_columns df (c # cs) =
     (case map_of df c of
        None \<Rightarrow> Inl KeyError
      | Some v \<Rightarrow>
          (case getitem_columns df cs of
             Inl e \<Rightarrow> Inl e
           | Inr r \<Rightarrow> Inr ((c, v) # r)))"

text \<open>
  The conversion of one cell by \<^verbatim>\<open>astype(float)\<close>. An \<^verbatim>\<open>int\<close> becomes the float of the
  same value, a \<^verbatim>\<open>float\<close> stays as it is (also \<^verbatim>\<open>nan\<close> and \<^verbatim>\<open>inf\<close>), a \<^verbatim>\<open>str\<close> goes
  through Python's \<^verbatim>\<open>float()\<close>. That built-in is the parameter \<open>float_str\<close>:
  \<open>None\<close> where it raises \<^verbatim>\<open>ValueError\<close>.
\<close>

fun to_float :: "(string \<Rightarrow> pyfloat option) \<Rightarrow> pyval \<Rightarrow> py_exn + pyfloat" where
  "to_float float_str (PyInt i) = Inr (Finite (of_int i))"
| "to_float float_str (PyFloat x) = Inr x"
| "to_float float_str (PyStr s) =
     (case float_str s of None \<Rightarrow> Inl ValueError | Some x \<Rightarrow> Inr x)"

fun astype_float :: "(string \<Rightarrow> pyfloat option) \<Rightarrow> pyval frame \<Rightarrow> py_exn + pyfloat frame" where
  "astype_float float_str [] = Inr []"
| "astype_float float_str ((c, v) # df) =
     (case to_float float_str v of
        Inl e \<Rightarrow> Inl e
      | Inr x \<Rightarrow>
          (case astype_float float_str df of
             Inl e \<Rightarrow> Inl e
           | Inr r \<Rightarrow> Inr ((c, x) # r)))"

section \<open>The prediction pipeline\<close>

definition feature_order :: "string list" where
  "feature_order =
     [''Fg'', ''CDAI'', ''APTT'', ''eGFR'', ''D-Dimer'',
      ''ALB'', ''Dose'', ''WBC'', ''Age'', ''AST'',
      ''ALT'', ''ADA'', ''Lesion site'']"

text \<open>\<^verbatim>\<open>input_data = pd.DataFrame([inputs])[feature_order].astype(float)\<close>\<close>

definition input_data :: "(string \<Rightarrow> pyfloat option) \<Rightarrow> pyval frame \<Rightarrow> py_exn + pyfloat frame" where
  "input_data float_str inputs =
     (case getitem_columns inputs feature_order of
        Inl e \<Rightarrow> Inl e
      | Inr df \<Rightarrow> astype_float float_str df)"

text \<open>
  An unpickled object, seen through what the script does with it: its truth value
  (\<^verbatim>\<open>if model and scaler\<close>) and the three methods it calls. A method the object does not
  have raises, like any failing call. The methods take and return arrays of one row;
  class labels are integers.
\<close>

record py_obj =
  truthy :: bool
  transform :: "pyfloat frame \<Rightarrow> py_exn + pyfloat list"
  predict_proba :: "pyfloat list \<Rightarrow> py_exn + pyfloat list list"
  predict :: "pyfloat list \<Rightarrow> py_exn + int list"

text \<open>The calls that reach the scaler and the classifier, with their argument.\<close>

datatype call =
    Transform "pyfloat frame"
  | Predict_proba "pyfloat list"
  | Predict "pyfloat list"

text \<open>The dict stored in \<^verbatim>\<open>st.session_state.prediction\<close>, keys \<^verbatim>\<open>'class'\<close> and
  \<^verbatim>\<open>'probability'\<close>.\<close>

record prediction_result =
  class_label :: string
  probability :: pyfloat

text \<open>The two labels of the script: "therapeutic concentration (at least 3 ug/ml)" and
  "low concentration (below 3 ug/ml)", in Chinese.\<close>

definition therapeutic_label :: string where
  "therapeutic_label =
     [CHR 0xE6, CHR 0xB2, CHR 0xBB, CHR 0xE7, CHR 0x96, CHR 0x97,
      CHR 0xE6, CHR 0xB5, CHR 0x93, CHR 0xE5, CHR 0xBA, CHR 0xA6]
     @ '' ('' @ [CHR 0xE2, CHR 0x89, CHR 0xA5] @ ''3 '' @ [CHR 0xCE, CHR 0xBC] @ ''g/ml)''"

definition low_label :: string where
  "low_label =
     [CHR 0xE4, CHR 0xBD, CHR 0x8E, CHR 0xE6, CHR 0xB5, CHR 0x93, CHR 0xE5, CHR 0xBA, CHR 0xA6]
     @ '' (<3 '' @ [CHR 0xCE, CHR 0xBC] @ ''g/ml)''"

text \<open>\<^verbatim>\<open>proba[1] if prediction == 1 else proba[0]\<close>\<close>

definition select_probability :: "pyfloat list \<Rightarrow> int \<Rightarrow> py_exn + pyfloat" where
  "select_probability proba prediction =
     (if prediction = 1 then getitem proba 1 else getitem proba 0)"

definition select_class :: "int \<Rightarrow> string" where
  "select_class prediction = (if prediction = 1 then therapeutic_label else low_label)"

text \<open>
  The body of the \<^verbatim>\<open>try\<close> block, statement by statement. It returns the calls made
  to the two objects and either the exception that ended the block or the dict that its
  last statement stores.
\<close>

definition run_pipeline ::
  "(string \<Rightarrow> pyfloat option) \<Rightarrow> py_obj \<Rightarrow> py_obj \<Rightarrow> pyval frame
     \<Rightarrow> call list \<times> (py_exn + prediction_result)" where
  "run_pipeline float_str model scaler inputs =
     (case input_data float_str inputs of
        Inl e \<Rightarrow> ([], Inl e)
      | Inr df \<Rightarrow>
     (case transform scaler df of
        Inl e \<Rightarrow> ([Transform df], Inl e)
      | Inr scaled_data \<Rightarrow>
     (case predict_proba model scaled_data of
        Inl e \<Rightarrow> ([Transform df, Predict_proba scaled_data], Inl e)
      | Inr probas \<Rightarrow>
     (case getitem probas 0 of
        Inl e \<Rightarrow> ([Transform df, Predict_proba scaled_data], Inl e)
      | Inr proba \<Rightarrow>
     (case predict model scaled_data of
        Inl e \<Rightarrow> ([Transform df, Predict_proba scaled_data, Predict scaled_data], Inl e)
      | Inr predictions \<Rightarrow>
     (case getitem predictions 0 of
        Inl e \<Rightarrow> ([Transform df, Predict_proba scaled_data, Predict scaled_data], Inl e)
      | Inr prediction \<Rightarrow>
     (case select_probability proba prediction of
        Inl e \<Rightarrow> ([Transform df, Predict_proba scaled_data, Predict scaled_data], Inl e)
      | Inr p \<Rightarrow>
          ([Transform df, Predict_proba scaled_data, Predict scaled_data],
           Inr \<lparr>class_label = select_class prediction, probability = p\<rparr>))))))))"

section \<open>Loading the two artifacts\<close>

definition model_path :: string where
  "model_path = ''C:'' @ [CHR 0x5C] @ ''Users'' @ [CHR 0x5C] @ ''cyw'' @ [CHR 0x5C]
     @ ''ifx_ensemble_model.pkl''"

definition scaler_path :: string where
  "scaler_path = ''C:'' @ [CHR 0x5C] @ ''Users'' @ [CHR 0x5C] @ ''cyw'' @ [CHR 0x5C]
     @ ''ifx_scaler.pkl''"

text \<open>What a path holds: nothing, a file that does not unpickle, or a pickled object.\<close>

datatype stored = Corrupt py_exn | Pickled py_obj

type_synonym storage = "string \<Rightarrow> stored option"

definition joblib_load :: "storage \<Rightarrow> string \<Rightarrow> py_exn + py_obj" where
  "joblib_load fs path =
     (case fs path of
        None \<Rightarrow> Inl FileNotFoundError
      | Some (Corrupt e) \<Rightarrow> Inl e
      | Some (Pickled obj) \<Rightarrow> Inr obj)"

text \<open>
  The argument of an \<^verbatim>\<open>st.error\<close> call: a literal text, or one of the two f-strings
  that hold \<^verbatim>\<open>str(e)\<close> and \<^verbatim>\<open>traceback.format_exc()\<close> of the exception \<open>e\<close> being handled,
  after the heading "model loading failed" or "prediction error".
\<close>

datatype message = Text string | Load_failed py_exn | Predict_failed py_exn

text \<open>The literal of the first handler: "model file not found, please make sure the
  following files exist", then the two file names, one per line.\<close>

definition files_not_found_text :: string where
  "files_not_found_text =
     [CHR 0xE6, CHR 0xA8, CHR 0xA1, CHR 0xE5, CHR 0x9E, CHR 0x8B, CHR 0xE6, CHR 0x96, CHR 0x87,
      CHR 0xE4, CHR 0xBB, CHR 0xB6, CHR 0xE6, CHR 0x9C, CHR 0xAA, CHR 0xE6, CHR 0x89, CHR 0xBE,
      CHR 0xE5, CHR 0x88, CHR 0xB0, CHR 0xEF, CHR 0xBC, CHR 0x8C, CHR 0xE8, CHR 0xAF, CHR 0xB7,
      CHR 0xE7, CHR 0xA1, CHR 0xAE, CHR 0xE8, CHR 0xAE, CHR 0xA4, CHR 0xE4, CHR 0xBB, CHR 0xA5,
      CHR 0xE4, CHR 0xB8, CHR 0x8B, CHR 0xE6, CHR 0x96, CHR 0x87, CHR 0xE4, CHR 0xBB, CHR 0xB6,
      CHR 0xE5, CHR 0xAD, CHR 0x98, CHR 0xE5, CHR 0x9C, CHR 0xA8, CHR 0xEF, CHR 0xBC, CHR 0x9A,
      CHR 0x0A]
     @ ''- ifx_ensemble_model.pkl'' @ [CHR 0x0A] @ ''- ifx_scaler.pkl''"

text \<open>The two \<^verbatim>\<open>except\<close> clauses of \<^verbatim>\<open>load_components\<close>, in their order: the message each
  one displays.\<close>

fun load_handler :: "py_exn \<Rightarrow> message" where
  "load_handler FileNotFoundError = Text files_not_found_text"
| "load_handler e = Load_failed e"

text \<open>
  The body of \<^verbatim>\<open>load_components\<close>: the paths it hands to \<^verbatim>\<open>joblib.load\<close>, the messages
  it displays, and the pair it returns (\<open>None\<close> is Python's \<^verbatim>\<open>None\<close>).
\<close>

definition load_components ::
  "storage \<Rightarrow> string list \<times> message list \<times> (py_obj option \<times> py_obj option)" where
  "load_components fs =
     (case joblib_load fs model_path of
        Inl e \<Rightarrow> ([model_path], [load_handler e], (None, None))
      | Inr model \<Rightarrow>
          (case joblib_load fs scaler_path of
             Inl e \<Rightarrow> ([model_path, scaler_path], [load_handler e], (None, None))
           | Inr scaler \<Rightarrow> ([model_path, scaler_path], [], (Some model, Some scaler))))"

section \<open>The session\<close>

text \<open>
  What lasts from one run of the script to the next, and what a run does:
  \<^item> \<open>prediction\<close>: the entry of \<^verbatim>\<open>st.session_state\<close>; \<open>None\<close> when the key is absent,
    \<open>Some None\<close> when it holds \<^verbatim>\<open>None\<close>;
  \<^item> \<open>cache\<close>: the entry that \<^verbatim>\<open>st.cache_resource\<close> keeps for \<^verbatim>\<open>load_components\<close>: the
    returned pair and the messages displayed while it was computed;
  \<^item> \<open>loads\<close>: the paths handed to \<^verbatim>\<open>joblib.load\<close> so far;
  \<^item> \<open>shown\<close>: the \<^verbatim>\<open>st.error\<close> messages displayed so far;
  \<^item> \<open>calls\<close>: the calls made to the scaler and the classifier so far.
\<close>

record app_state =
  prediction :: "prediction_result option option"
  cache :: "(message list \<times> (py_obj option \<times> py_obj option)) option"
  loads :: "string list"
  shown :: "message list"
  calls :: "call list"

text \<open>
  \<^verbatim>\<open>@st.cache_resource\<close>: the first call runs the body and keeps what it returned; a later
  call returns the kept pair and displays the kept messages again, without running the
  body. (The body catches every exception, so every first call returns and is kept.)
\<close>

definition load_components_cached ::
  "storage \<Rightarrow> app_state \<Rightarrow> (py_obj option \<times> py_obj option) \<times> app_state" where
  "load_components_cached fs s =
     (case cache s of
        Some (msgs, r) \<Rightarrow> (r, s\<lparr>shown := shown s @ msgs\<rparr>)
      | None \<Rightarrow>
          (case load_components fs of
             (paths, msgs, r) \<Rightarrow>
               (r, s\<lparr>cache := Some (msgs, r), loads := loads s @ paths,
                      shown := shown s @ msgs\<rparr>)))"

text \<open>Calling the loader once for each storage of a list (the storage may change between
  calls): the pairs returned, in order, and the final state.\<close>

fun load_many ::
  "storage list \<Rightarrow> app_state \<Rightarrow> (py_obj option \<times> py_obj option) list \<times> app_state" where
  "load_many [] s = ([], s)"
| "load_many (fs # fss) s =
     (case load_components_cached fs s of
        (r, s1) \<Rightarrow> (case load_many fss s1 of (rs, s2) \<Rightarrow> (r # rs, s2)))"

text \<open>
  The block run when the button is pressed: load, test both objects, run the
  \<^verbatim>\<open>try\<close> block; its last statement stores the result, its handler displays the
  exception.
\<close>

definition on_click ::
  "(string \<Rightarrow> pyfloat option) \<Rightarrow> storage \<Rightarrow> pyval frame \<Rightarrow> app_state \<Rightarrow> app_state" where
  "on_click float_str fs inputs s =
     (case load_components_cached fs s of
        ((Some model, Some scaler), s1) \<Rightarrow>
          if truthy model \<and> truthy scaler then
            (case run_pipeline float_str model scaler inputs of
               (cs, Inr result) \<Rightarrow>
                 s1\<lparr>prediction := Some (Some result), calls := calls s1 @ cs\<rparr>
             | (cs, Inl e) \<Rightarrow>
                 s1\<lparr>shown := shown s1 @ [Predict_failed e], calls := calls s1 @ cs\<rparr>)
          else s1
      | (_, s1) \<Rightarrow> s1)"

text \<open>\<^verbatim>\<open>if 'prediction' not in st.session_state: st.session_state.prediction = None\<close>\<close>

definition init_session :: "app_state \<Rightarrow> app_state" where
  "init_session s = (case prediction s of None \<Rightarrow> s\<lparr>prediction := Some None\<rparr> | Some _ \<Rightarrow> s)"

text \<open>One run of the script: \<open>button\<close> tells whether the button was pressed.\<close>

definition script_run ::
  "(string \<Rightarrow> pyfloat option) \<Rightarrow> storage \<Rightarrow> pyval frame \<Rightarrow> bool \<Rightarrow> app_state \<Rightarrow> app_state" where
  "script_run float_str fs inputs button s =
     (let s0 = init_session s in if button then on_click float_str fs inputs s0 else s0)"

section \<open>Fixtures\<close>

text \<open>The feature mapping of the end-to-end example; \<^verbatim>\<open>CDAI\<close> and \<^verbatim>\<open>Lesion site\<close> are
  given as integers.\<close>

definition example_inputs :: "pyval frame" where
  "example_inputs =
     [(''Fg'', PyFloat (Finite 3.0)), (''CDAI'', PyInt 300), (''APTT'', PyFloat (Finite 20.0)),
      (''eGFR'', PyFloat (Finite 75.0)), (''D-Dimer'', PyFloat (Finite 0.5)),
      (''ALB'', PyFloat (Finite 45.0)), (''Dose'', PyFloat (Finite 600.0)),
      (''WBC'', PyFloat (Finite 7.0)), (''Age'', PyFloat (Finite 49.0)),
      (''AST'', PyFloat (Finite 24.0)), (''ALT'', PyFloat (Finite 31.5)),
      (''ADA'', PyFloat (Finite 4.0)), (''Lesion site'', PyInt 3)]"

text \<open>The same mapping after coercion, in the contracted order.\<close>

definition example_frame :: "pyfloat frame" where
  "example_frame =
     [(''Fg'', Finite 3.0), (''CDAI'', Finite 300), (''APTT'', Finite 20.0),
      (''eGFR'', Finite 75.0), (''D-Dimer'', Finite 0.5), (''ALB'', Finite 45.0),
      (''Dose'', Finite 600.0), (''WBC'', Finite 7.0), (''Age'', Finite 49.0),
      (''AST'', Finite 24.0), (''ALT'', Finite 31.5), (''ADA'', Finite 4.0),
      (''Lesion site'', Finite 3)]"

text \<open>A scaler that returns the row unchanged, and classifiers that answer every input
  with one class and one row of probabilities; the classifier of the end-to-end example
  answers class 1 with probabilities 0.2 and 0.8. Neither has the other's methods.\<close>

definition fixture_scaler :: py_obj where
  "fixture_scaler =
     \<lparr>truthy = True,
      transform = (\<lambda>df. Inr (map snd df)),
      predict_proba = (\<lambda>x. Inl (Raised ''AttributeError'')),
      predict = (\<lambda>x. Inl (Raised ''AttributeError''))\<rparr>"

definition constant_classifier :: "int \<Rightarrow> pyfloat list \<Rightarrow> py_obj" where
  "constant_classifier c proba =
     \<lparr>truthy = True,
      transform = (\<lambda>df. Inl (Raised ''AttributeError'')),
      predict_proba = (\<lambda>x. Inr [proba]),
      predict = (\<lambda>x. Inr [c])\<rparr>"

definition fixture_model :: py_obj where
  "fixture_model = constant_classifier 1 [Finite 0.2, Finite 0.8]"

text \<open>A scaler whose \<^verbatim>\<open>transform\<close> rejects every input.\<close>

definition failing_scaler :: py_obj where
  "failing_scaler = fixture_scaler\<lparr>transform := (\<lambda>df. Inl ValueError)\<rparr>"

text \<open>Python's \<^verbatim>\<open>float()\<close> on the strings the examples use: it reads \<^verbatim>\<open>'3.5'\<close> and
  rejects \<^verbatim>\<open>'abc'\<close>.\<close>

definition fixture_float :: "string \<Rightarrow> pyfloat option" where
  "fixture_float s = (if s = ''3.5'' then Some (Finite 3.5) else None)"

text \<open>A storage holding both artifacts, one holding the classifier and a failing
  scaler, and one holding neither.\<close>

definition fixture_storage :: storage where
  "fixture_storage path =
     (if path = model_path then Some (Pickled fixture_model)
      else if path = scaler_path then Some (Pickled fixture_scaler)
      else None)"

definition failing_storage :: storage where
  "failing_storage path =
     (if path = model_path then Some (Pickled fixture_model)
      else if path = scaler_path then Some (Pickled failing_scaler)
      else None)"

definition empty_storage :: storage where
  "empty_storage path = None"

text \<open>The state of a fresh process and session.\<close>

definition initial_state :: app_state where
  "initial_state = \<lparr>prediction = None, cache = None, loads = [], shown = [], calls = []\<rparr>"


definition text_inputs :: "pyval frame" where
  "text_inputs = (''Fg'', PyStr ''abc'') # tl example_inputs"

definition extra_inputs :: "pyval frame" where
  "extra_inputs = example_inputs @ [(''Extra'', PyFloat (Finite 1.0))]"

definition missing_inputs :: "pyval frame" where
  "missing_inputs = tl example_inputs"

section \<open>Facts about the steps\<close>

lemma getitem_columns_Inr:
  "getitem_columns df cols = Inr r \<Longrightarrow>
     map fst r = cols \<and> map (\<lambda>(c, v). Some v) r = map (map_of df) cols"
  by (induction cols arbitrary: r) (auto split: option.splits sum.splits)

lemma getitem_columns_Inl:
  "getitem_columns df cols = Inl e \<Longrightarrow> e = KeyError \<and> (\<exists>c\<in>set cols. map_of df c = None)"
  by (induction cols) (auto split: option.splits sum.splits)

lemma getitem_columns_missing:
  "c \<in> set cols \<Longrightarrow> map_of df c = None \<Longrightarrow> getitem_columns df cols = Inl KeyError"
  by (induction cols) (auto split: option.splits sum.splits dest: getitem_columns_Inl)

lemma getitem_columns_total:
  "\<forall>c\<in>set cols. map_of df c \<noteq> None \<Longrightarrow> \<exists>r. getitem_columns df cols = Inr r"
  by (induction cols) (auto split: option.splits sum.splits)

lemma getitem_columns_cong:
  "\<forall>c\<in>set cols. map_of df c = map_of df' c \<Longrightarrow>
     getitem_columns df cols = getitem_columns df' cols"
  by (induction cols) (auto split: option.splits sum.splits)


lemma astype_float_Inr:
  "astype_float fl df = Inr r \<Longrightarrow>
     map fst r = map fst df \<and> map (\<lambda>(c, x). Inr x) r = map (\<lambda>(c, v). to_float fl v) df"
  by (induction df arbitrary: r) (auto split: sum.splits)


lemma astype_float_total:
  "\<forall>(c, v)\<in>set df. \<exists>x. to_float fl v = Inr x \<Longrightarrow> \<exists>r. astype_float fl df = Inr r"
  by (induction df) (auto split: sum.splits)


lemma input_data_cong:
  "\<forall>c\<in>set feature_order. map_of inputs c = map_of inputs' c \<Longrightarrow>
     input_data fl inputs = input_data fl inputs'"
  by (simp add: input_data_def getitem_columns_cong [of feature_order inputs inputs'])

lemma run_pipeline_cong:
  "input_data fl inputs = input_data fl inputs' \<Longrightarrow>
     run_pipeline fl model scaler inputs = run_pipeline fl model scaler inputs'"
  by (simp add: run_pipeline_def)

lemma run_pipeline_Inr:
  "run_pipeline fl model scaler inputs = (cs, Inr res) \<longleftrightarrow>
     (\<exists>df scaled probas proba predictions prediction p.
        input_data fl inputs = Inr df \<and> transform scaler df = Inr scaled \<and>
        predict_proba model scaled = Inr probas \<and> getitem probas 0 = Inr proba \<and>
        predict model scaled = Inr predictions \<and> getitem predictions 0 = Inr prediction \<and>
        select_probability proba prediction = Inr p \<and>
        cs = [Transform df, Predict_proba scaled, Predict scaled] \<and>
        res = \<lparr>class_label = select_class prediction, probability = p\<rparr>)"
  by (auto simp: run_pipeline_def split: sum.splits)

lemma run_pipeline_no_input:
  "input_data fl inputs = Inl e \<Longrightarrow> run_pipeline fl model scaler inputs = ([], Inl e)"
  by (simp add: run_pipeline_def)

lemma run_pipeline_transform:
  "input_data fl inputs = Inr df \<Longrightarrow>
     \<exists>rest r. run_pipeline fl model scaler inputs = (Transform df # rest, r) \<and>
       (\<forall>d. Transform d \<notin> set rest)"
  by (auto simp: run_pipeline_def split: sum.splits)

lemma length_feature_order: "length feature_order = 13"
  by (simp add: feature_order_def)

lemma labels_differ: "therapeutic_label \<noteq> low_label"
  by (simp add: therapeutic_label_def low_label_def)

lemma paths_differ: "model_path \<noteq> scaler_path"
  by (simp add: model_path_def scaler_path_def)

lemma input_data_example: "input_data fl example_inputs = Inr example_frame"
  by (simp add: input_data_def feature_order_def example_inputs_def example_frame_def)

lemma run_fixture:
  "run_pipeline fl fixture_model fixture_scaler example_inputs =
     ([Transform example_frame, Predict_proba (map snd example_frame),
       Predict (map snd example_frame)],
      Inr \<lparr>class_label = therapeutic_label, probability = Finite 0.8\<rparr>)"
  by (simp add: run_pipeline_def input_data_example fixture_model_def constant_classifier_def
      fixture_scaler_def getitem_def select_probability_def select_class_def)

lemma load_components_cached_keeps:
  "load_components_cached fs s = (r, s1) \<Longrightarrow> prediction s1 = prediction s \<and> calls s1 = calls s"
  by (auto simp: load_components_cached_def split: option.splits prod.splits)

lemma on_click_loaded:
  "load_components_cached fs s = ((Some model, Some scaler), s1) \<Longrightarrow>
   truthy model \<Longrightarrow> truthy scaler \<Longrightarrow>
   on_click fl fs inputs s =
     (case run_pipeline fl model scaler inputs of
        (cs, Inr result) \<Rightarrow> s1\<lparr>prediction := Some (Some result), calls := calls s1 @ cs\<rparr>
      | (cs, Inl e) \<Rightarrow> s1\<lparr>shown := shown s1 @ [Predict_failed e], calls := calls s1 @ cs\<rparr>)"
  by (simp add: on_click_def)

lemma load_fixture_storage:
  "load_components_cached fixture_storage initial_state =
     ((Some fixture_model, Some fixture_scaler),
      initial_state\<lparr>cache := Some ([], (Some fixture_model, Some fixture_scaler)),
                     loads := [model_path, scaler_path]\<rparr>)"
  by (simp add: load_components_cached_def load_components_def joblib_load_def
      fixture_storage_def initial_state_def paths_differ [symmetric])

lemma truthy_fixtures: "truthy fixture_model" "truthy fixture_scaler"
  by (simp_all add: fixture_model_def constant_classifier_def fixture_scaler_def)

lemma run_constant_classifier:
  "run_pipeline fl (constant_classifier c [p0, p1]) fixture_scaler example_inputs =
     ([Transform example_frame, Predict_proba (map snd example_frame),
       Predict (map snd example_frame)],
      Inr \<lparr>class_label = select_class c, probability = (if c = 1 then p1 else p0)\<rparr>)"
  by (simp add: run_pipeline_def input_data_example constant_classifier_def
      fixture_scaler_def getitem_def select_probability_def)


lemma input_data_missing:
  "k \<in> set feature_order \<Longrightarrow> map_of inputs k = None \<Longrightarrow> input_data fl inputs = Inl KeyError"
  by (simp add: input_data_def getitem_columns_missing)


lemma on_click_failed:
  assumes "load_components_cached fs s = ((Some model, Some scaler), s1)"
    and "truthy model" "truthy scaler"
    and "run_pipeline fl model scaler inputs = (cs, Inl e)"
  shows "on_click fl fs inputs s = s1\<lparr>shown := shown s1 @ [Predict_failed e], calls := calls s1 @ cs\<rparr>"
  using assms by (simp add: on_click_loaded)

lemma on_click_prediction:
  "prediction (on_click fl fs inputs s) \<noteq> prediction s \<Longrightarrow>
     \<exists>model scaler s1 cs res.
       load_components_cached fs s = ((Some model, Some scaler), s1) \<and>
       truthy model \<and> truthy scaler \<and>
       run_pipeline fl model scaler inputs = (cs, Inr res) \<and>
       prediction (on_click fl fs inputs s) = Some (Some res)"
  by (auto simp: on_click_def split: prod.splits option.splits sum.splits if_splits
      dest: load_components_cached_keeps)

lemma load_failing_storage:
  "load_components_cached failing_storage initial_state =
     ((Some fixture_model, Some failing_scaler),
      initial_state\<lparr>cache := Some ([], (Some fixture_model, Some failing_scaler)),
                     loads := [model_path, scaler_path]\<rparr>)"
  by (simp add: load_components_cached_def load_components_def joblib_load_def
      failing_storage_def initial_state_def paths_differ [symmetric])

lemma truthy_failing_scaler: "truthy failing_scaler"
  by (simp add: failing_scaler_def fixture_scaler_def)

lemma load_many_cached:
  "cache s = Some (msgs, r) \<Longrightarrow>
     \<exists>s'. load_many fss s = (replicate (length fss) r, s') \<and> loads s' = loads s \<and>
          cache s' = cache s"
proof (induction fss arbitrary: s)
  case Nil
  then show ?case by simp
next
  case (Cons fs fss)
  let ?s1 = "s\<lparr>shown := shown s @ msgs\<rparr>"
  have step: "load_components_cached fs s = (r, ?s1)"
    using Cons.prems by (simp add: load_components_cached_def)
  have "cache ?s1 = Some (msgs, r)"
    using Cons.prems by simp
  from Cons.IH [OF this] obtain s' where
    "load_many fss ?s1 = (replicate (length fss) r, s')" "loads s' = loads ?s1" "cache s' = cache ?s1"
    by blast
  then show ?case
    using step by simp
qed

section \<open>The claims\<close>

text \<open>
  C1. For a mapping with exactly the thirteen keys, each once, and numeric values, the
  first and only call of \<^verbatim>\<open>transform\<close> receives a frame whose thirteen columns are
  named, in this order, Fg, CDAI, APTT, eGFR, D-Dimer, ALB, Dose, WBC, Age, AST, ALT, ADA,
  Lesion site, each holding the float of the value stored under that key; and a mapping
  with the same entries in any other order gives the same calls and the same outcome.
\<close>

theorem order_invariant:
  assumes keys: "distinct (map fst inputs)" "fst ` set inputs = set feature_order"
    and numeric: "\<forall>(k, v)\<in>set inputs. \<exists>x. to_float fl v = Inr x"
    and other: "distinct (map fst inputs')" "set inputs' = set inputs"
  shows "\<exists>df rest r.
           run_pipeline fl model scaler inputs = (Transform df # rest, r) \<and>
           (\<forall>d. Transform d \<notin> set rest) \<and>
           map fst df =
             [''Fg'', ''CDAI'', ''APTT'', ''eGFR'', ''D-Dimer'', ''ALB'', ''Dose'', ''WBC'',
              ''Age'', ''AST'', ''ALT'', ''ADA'', ''Lesion site''] \<and>
           (\<forall>i<13. \<exists>v. map_of inputs (feature_order ! i) = Some v \<and>
                      to_float fl v = Inr (snd (df ! i))) \<and>
           run_pipeline fl model scaler inputs' = run_pipeline fl model scaler inputs"
proof -
  have present: "\<forall>c\<in>set feature_order. map_of inputs c \<noteq> None"
    using keys(2) by (simp add: map_of_eq_None_iff)
  then obtain sel where sel: "getitem_columns inputs feature_order = Inr sel"
    using getitem_columns_total by blast
  have sel_fst: "map fst sel = feature_order"
    and sel_val: "map (\<lambda>(c, v). Some v) sel = map (map_of inputs) feature_order"
    using getitem_columns_Inr [OF sel] by simp_all
  have "\<forall>(c, v)\<in>set sel. (c, v) \<in> set inputs"
  proof clarify
    fix c v assume cv: "(c, v) \<in> set sel"
    then obtain i where i: "i < length sel" "sel ! i = (c, v)"
      by (auto simp: in_set_conv_nth)
    have len: "length sel = length feature_order"
      using sel_fst by (metis length_map)
    have "map (\<lambda>(c, v). Some v) sel ! i = map (map_of inputs) feature_order ! i"
      using sel_val by simp
    moreover have "map fst sel ! i = feature_order ! i"
      using sel_fst by simp
    ultimately have "map_of inputs c = Some v"
      using i len by simp
    then show "(c, v) \<in> set inputs"
      by (rule map_of_SomeD)
  qed
  with numeric have "\<forall>(c, v)\<in>set sel. \<exists>x. to_float fl v = Inr x"
    by blast
  then obtain df where df: "astype_float fl sel = Inr df"
    using astype_float_total by blast
  have inp: "input_data fl inputs = Inr df"
    by (simp add: input_data_def sel df)
  have df_fst: "map fst df = feature_order"
    using astype_float_Inr [OF df] sel_fst by simp
  have df_val: "map (\<lambda>(c, x). Inr x) df = map (\<lambda>(c, v). to_float fl v) sel"
    using astype_float_Inr [OF df] by simp
  have "length (map fst df) = 13" and "length (map fst sel) = 13"
    unfolding df_fst sel_fst by (simp_all add: length_feature_order)
  then have len_df: "length df = 13" and len_sel: "length sel = 13"
    by simp_all
  have cells: "\<forall>i<13. \<exists>v. map_of inputs (feature_order ! i) = Some v \<and>
                 to_float fl v = Inr (snd (df ! i))"
  proof (intro allI impI)
    fix i :: nat assume i: "i < 13"
    have "map (\<lambda>(c, v). Some v) sel ! i = map (map_of inputs) feature_order ! i"
      using sel_val by simp
    then have a: "map_of inputs (feature_order ! i) = Some (snd (sel ! i))"
      using i len_sel length_feature_order by (simp add: case_prod_beta)
    have "map (\<lambda>(c, x). Inr x) df ! i = map (\<lambda>(c, v). to_float fl v) sel ! i"
      using df_val by simp
    then have b: "to_float fl (snd (sel ! i)) = Inr (snd (df ! i))"
      using i len_sel len_df by (simp add: case_prod_beta)
    from a b show "\<exists>v. map_of inputs (feature_order ! i) = Some v \<and>
        to_float fl v = Inr (snd (df ! i))"
      by blast
  qed
  have "map_of inputs' = map_of inputs"
    using keys(1) other by (simp add: map_of_inject_set)
  then have same: "run_pipeline fl model scaler inputs' = run_pipeline fl model scaler inputs"
    by (intro run_pipeline_cong input_data_cong) simp
  from run_pipeline_transform [OF inp] obtain rest r where
    run: "run_pipeline fl model scaler inputs = (Transform df # rest, r)"
    and only: "\<forall>d. Transform d \<notin> set rest"
    by blast
  have names: "map fst df =
      [''Fg'', ''CDAI'', ''APTT'', ''eGFR'', ''D-Dimer'', ''ALB'', ''Dose'', ''WBC'',
       ''Age'', ''AST'', ''ALT'', ''ADA'', ''Lesion site'']"
    using df_fst by (simp add: feature_order_def)
  show ?thesis
    by (rule exI [of _ df], rule exI [of _ rest], rule exI [of _ r])
      (intro conjI run only names cells same)
qed

theorem order_invariant_witness:
  "distinct (map fst example_inputs) \<and> fst ` set example_inputs = set feature_order \<and>
   set (rev example_inputs) = set example_inputs \<and>
   fst (run_pipeline fixture_float fixture_model fixture_scaler (rev example_inputs)) =
     [Transform example_frame, Predict_proba (map snd example_frame),
      Predict (map snd example_frame)]"
proof -
  have k1: "distinct (map fst example_inputs)"
    by (simp add: example_inputs_def)
  have k2: "fst ` set example_inputs = set feature_order"
    by (simp add: example_inputs_def feature_order_def)
  have num: "\<forall>(k, v)\<in>set example_inputs. \<exists>x. to_float fixture_float v = Inr x"
    by (simp add: example_inputs_def)
  have o1: "distinct (map fst (rev example_inputs))"
    using k1 by (simp add: rev_map [symmetric])
  have o2: "set (rev example_inputs) = set example_inputs"
    by simp
  from order_invariant [OF k1 k2 num o1 o2, of fixture_model fixture_scaler]
  have "run_pipeline fixture_float fixture_model fixture_scaler (rev example_inputs) =
        run_pipeline fixture_float fixture_model fixture_scaler example_inputs"
    by blast
  then show ?thesis
    using k1 k2 by (simp add: run_fixture)
qed

text \<open>
  C2. Whenever the pipeline produces a result, its confidence is taken from the row of
  probabilities that \<^verbatim>\<open>predict_proba\<close> returned, at the index of the class that
  \<^verbatim>\<open>predict\<close> returned: index 1 for class 1, index 0 for class 0. A classifier answering
  class 1 with probabilities 0.3 and 0.7 gives confidence 0.7; one answering class 0 with
  0.9 and 0.1 gives 0.9.
\<close>

theorem confidence_selection:
  "(run_pipeline fl model scaler inputs = (cs, Inr res) \<longrightarrow>
      (\<exists>scaled probas proba predictions prediction.
         Predict_proba scaled \<in> set cs \<and> predict_proba model scaled = Inr probas \<and>
         getitem probas 0 = Inr proba \<and>
         Predict scaled \<in> set cs \<and> predict model scaled = Inr predictions \<and>
         getitem predictions 0 = Inr prediction \<and>
         (prediction = 1 \<longrightarrow> getitem proba 1 = Inr (probability res)) \<and>
         (prediction = 0 \<longrightarrow> getitem proba 0 = Inr (probability res)))) \<and>
   (input_data fl inputs = Inr df \<and> transform scaler df = Inr x \<and>
    predict model x = Inr [1] \<and> predict_proba model x = Inr [[Finite 0.3, Finite 0.7]] \<longrightarrow>
      (\<exists>cs res. run_pipeline fl model scaler inputs = (cs, Inr res) \<and>
         probability res = Finite 0.7)) \<and>
   (input_data fl inputs = Inr df \<and> transform scaler df = Inr x \<and>
    predict model x = Inr [0] \<and> predict_proba model x = Inr [[Finite 0.9, Finite 0.1]] \<longrightarrow>
      (\<exists>cs res. run_pipeline fl model scaler inputs = (cs, Inr res) \<and>
         probability res = Finite 0.9))"
proof (intro conjI impI)
  assume "run_pipeline fl model scaler inputs = (cs, Inr res)"
  then obtain df scaled probas proba predictions prediction p where
    steps: "predict_proba model scaled = Inr probas" "getitem probas 0 = Inr proba"
      "predict model scaled = Inr predictions" "getitem predictions 0 = Inr prediction"
    and sel: "select_probability proba prediction = Inr p"
    and cs: "cs = [Transform df, Predict_proba scaled, Predict scaled]"
    and res: "res = \<lparr>class_label = select_class prediction, probability = p\<rparr>"
    unfolding run_pipeline_Inr by blast
  have "prediction = 1 \<longrightarrow> getitem proba 1 = Inr (probability res)"
    and "prediction = 0 \<longrightarrow> getitem proba 0 = Inr (probability res)"
    using sel res by (auto simp: select_probability_def split: if_splits)
  with steps cs show "\<exists>scaled probas proba predictions prediction.
         Predict_proba scaled \<in> set cs \<and> predict_proba model scaled = Inr probas \<and>
         getitem probas 0 = Inr proba \<and>
         Predict scaled \<in> set cs \<and> predict model scaled = Inr predictions \<and>
         getitem predictions 0 = Inr prediction \<and>
         (prediction = 1 \<longrightarrow> getitem proba 1 = Inr (probability res)) \<and>
         (prediction = 0 \<longrightarrow> getitem proba 0 = Inr (probability res))"
    by (intro exI [of _ scaled] exI [of _ probas] exI [of _ proba] exI [of _ predictions]
        exI [of _ prediction]) simp
next
  assume "input_data fl inputs = Inr df \<and> transform scaler df = Inr x \<and>
    predict model x = Inr [1] \<and> predict_proba model x = Inr [[Finite 0.3, Finite 0.7]]"
  then show "\<exists>cs res. run_pipeline fl model scaler inputs = (cs, Inr res) \<and>
      probability res = Finite 0.7"
    by (simp add: run_pipeline_def getitem_def select_probability_def)
next
  assume "input_data fl inputs = Inr df \<and> transform scaler df = Inr x \<and>
    predict model x = Inr [0] \<and> predict_proba model x = Inr [[Finite 0.9, Finite 0.1]]"
  then show "\<exists>cs res. run_pipeline fl model scaler inputs = (cs, Inr res) \<and>
      probability res = Finite 0.9"
    by (simp add: run_pipeline_def getitem_def select_probability_def)
qed

theorem confidence_selection_witness:
  "(\<exists>cs res. run_pipeline fixture_float (constant_classifier 1 [Finite 0.3, Finite 0.7])
       fixture_scaler example_inputs = (cs, Inr res) \<and> probability res = Finite 0.7) \<and>
   (\<exists>cs res. run_pipeline fixture_float (constant_classifier 0 [Finite 0.9, Finite 0.1])
       fixture_scaler example_inputs = (cs, Inr res) \<and> probability res = Finite 0.9) \<and>
   snd (run_pipeline fixture_float fixture_model fixture_scaler example_inputs) =
     Inr \<lparr>class_label = therapeutic_label, probability = Finite 0.8\<rparr> \<and>
   getitem [Finite 0.2, Finite 0.8] 1 = Inr (Finite 0.8)"
proof -
  let ?x = "map snd example_frame"
  have t: "transform fixture_scaler example_frame = Inr ?x"
    by (simp add: fixture_scaler_def)
  have a: "predict (constant_classifier 1 [Finite 0.3, Finite 0.7]) ?x = Inr [1]"
    "predict_proba (constant_classifier 1 [Finite 0.3, Finite 0.7]) ?x
       = Inr [[Finite 0.3, Finite 0.7]]"
    by (simp_all add: constant_classifier_def)
  have b: "predict (constant_classifier 0 [Finite 0.9, Finite 0.1]) ?x = Inr [0]"
    "predict_proba (constant_classifier 0 [Finite 0.9, Finite 0.1]) ?x
       = Inr [[Finite 0.9, Finite 0.1]]"
    by (simp_all add: constant_classifier_def)
  note w1 = confidence_selection [of fixture_float "constant_classifier 1 [Finite 0.3, Finite 0.7]"
      fixture_scaler example_inputs _ _ example_frame ?x]
  note w2 = confidence_selection [of fixture_float "constant_classifier 0 [Finite 0.9, Finite 0.1]"
      fixture_scaler example_inputs _ _ example_frame ?x]
  note w3 = confidence_selection [of fixture_float fixture_model fixture_scaler example_inputs
      "[Transform example_frame, Predict_proba ?x, Predict ?x]"
      "\<lparr>class_label = therapeutic_label, probability = Finite 0.8\<rparr>"]
  have "\<exists>cs res. run_pipeline fixture_float (constant_classifier 1 [Finite 0.3, Finite 0.7])
       fixture_scaler example_inputs = (cs, Inr res) \<and> probability res = Finite 0.7"
    using w1 t a input_data_example [of fixture_float] by blast
  moreover have "\<exists>cs res. run_pipeline fixture_float (constant_classifier 0 [Finite 0.9, Finite 0.1])
       fixture_scaler example_inputs = (cs, Inr res) \<and> probability res = Finite 0.9"
    using w2 t b input_data_example [of fixture_float] by blast
  moreover have "getitem [Finite 0.2, Finite 0.8] 1 = Inr (Finite 0.8)"
    using w3 run_fixture [of fixture_float]
    by (auto simp: fixture_model_def constant_classifier_def getitem_def)
  ultimately show ?thesis
    by (simp add: run_fixture)
qed

text \<open>
  C3. Whenever the pipeline produces a result, its label is the therapeutic label exactly
  when the predicted class is 1, and the low-concentration (subtherapeutic) label when the
  predicted class is 0; the two labels differ, and a result never carries any other label.
\<close>

theorem label_mapping:
  "(run_pipeline fl model scaler inputs = (cs, Inr res) \<longrightarrow>
      (\<exists>scaled predictions prediction.
         Predict scaled \<in> set cs \<and> predict model scaled = Inr predictions \<and>
         getitem predictions 0 = Inr prediction \<and>
         (class_label res = therapeutic_label \<longleftrightarrow> prediction = 1) \<and>
         (prediction = 0 \<longrightarrow> class_label res = low_label)) \<and>
      (class_label res = therapeutic_label \<or> class_label res = low_label)) \<and>
   therapeutic_label \<noteq> low_label"
proof (intro conjI impI)
  assume run: "run_pipeline fl model scaler inputs = (cs, Inr res)"
  then obtain df scaled predictions prediction p where
    steps: "predict model scaled = Inr predictions" "getitem predictions 0 = Inr prediction"
    and cs: "cs = [Transform df, Predict_proba scaled, Predict scaled]"
    and res: "res = \<lparr>class_label = select_class prediction, probability = p\<rparr>"
    unfolding run_pipeline_Inr by blast
  have lab: "class_label res = therapeutic_label \<longleftrightarrow> prediction = 1"
    "prediction = 0 \<longrightarrow> class_label res = low_label"
    using res labels_differ by (auto simp: select_class_def)
  with steps cs show "\<exists>scaled predictions prediction.
         Predict scaled \<in> set cs \<and> predict model scaled = Inr predictions \<and>
         getitem predictions 0 = Inr prediction \<and>
         (class_label res = therapeutic_label \<longleftrightarrow> prediction = 1) \<and>
         (prediction = 0 \<longrightarrow> class_label res = low_label)"
    by (intro exI [of _ scaled] exI [of _ predictions] exI [of _ prediction]) simp
  show "class_label res = therapeutic_label \<or> class_label res = low_label"
    using res by (simp add: select_class_def)
next
  show "therapeutic_label \<noteq> low_label"
    by (rule labels_differ)
qed

theorem label_mapping_witness:
  "class_label \<lparr>class_label = select_class 0, probability = Finite 0.9\<rparr> = low_label \<and>
   snd (run_pipeline fixture_float (constant_classifier 0 [Finite 0.9, Finite 0.1])
          fixture_scaler example_inputs)
     = Inr \<lparr>class_label = low_label, probability = Finite 0.9\<rparr>"
proof -
  let ?x = "map snd example_frame"
  let ?m = "constant_classifier 0 [Finite 0.9, Finite 0.1]"
  let ?res = "\<lparr>class_label = select_class 0, probability = Finite 0.9\<rparr>"
  have run: "run_pipeline fixture_float ?m fixture_scaler example_inputs =
      ([Transform example_frame, Predict_proba ?x, Predict ?x], Inr ?res)"
    by (simp add: run_constant_classifier)
  have "predict ?m y = Inr [0]" for y
    by (simp add: constant_classifier_def)
  then have "class_label ?res = low_label"
    using label_mapping [of fixture_float ?m fixture_scaler example_inputs
        "[Transform example_frame, Predict_proba ?x, Predict ?x]" ?res] run
    by (auto simp: getitem_def)
  then show ?thesis
    using run by simp
qed

text \<open>
  C4. For the example mapping (Fg 3.0, CDAI 300, APTT 20.0, eGFR 75.0, D-Dimer 0.5,
  ALB 45.0, Dose 600.0, WBC 7.0, Age 49.0, AST 24.0, ALT 31.5, ADA 4.0, Lesion site 3),
  a scaler that accepts the row and a classifier that answers class 1 with probabilities
  0.2 and 0.8, the pipeline ends with the therapeutic label and confidence 0.8, and
  pressing the button stores exactly this result.
\<close>

theorem end_to_end_example:
  assumes scaler: "transform scaler example_frame = Inr x"
    and model: "predict model x = Inr [1]" "predict_proba model x = Inr [[Finite 0.2, Finite 0.8]]"
  shows "snd (run_pipeline fl model scaler example_inputs) =
           Inr \<lparr>class_label = therapeutic_label, probability = Finite 0.8\<rparr> \<and>
         (load_components_cached fs s = ((Some model, Some scaler), s1) \<and>
          truthy model \<and> truthy scaler \<longrightarrow>
            prediction (on_click fl fs example_inputs s) =
              Some (Some \<lparr>class_label = therapeutic_label, probability = Finite 0.8\<rparr>))"
proof -
  have run: "run_pipeline fl model scaler example_inputs =
      ([Transform example_frame, Predict_proba x, Predict x],
       Inr \<lparr>class_label = therapeutic_label, probability = Finite 0.8\<rparr>)"
    using scaler model
    by (simp add: run_pipeline_def input_data_example getitem_def select_probability_def
        select_class_def)
  show ?thesis
  proof (intro conjI impI)
    show "snd (run_pipeline fl model scaler example_inputs) =
        Inr \<lparr>class_label = therapeutic_label, probability = Finite 0.8\<rparr>"
      by (simp add: run)
  next
    assume "load_components_cached fs s = ((Some model, Some scaler), s1) \<and>
        truthy model \<and> truthy scaler"
    then have l: "load_components_cached fs s = ((Some model, Some scaler), s1)"
      and t: "truthy model" "truthy scaler"
      by simp_all
    have "on_click fl fs example_inputs s =
        s1\<lparr>prediction := Some (Some \<lparr>class_label = therapeutic_label, probability = Finite 0.8\<rparr>),
           calls := calls s1 @ [Transform example_frame, Predict_proba x, Predict x]\<rparr>"
      unfolding on_click_loaded [OF l t] by (simp add: run)
    then show "prediction (on_click fl fs example_inputs s) =
        Some (Some \<lparr>class_label = therapeutic_label, probability = Finite 0.8\<rparr>)"
      by simp
  qed
qed

theorem end_to_end_example_witness:
  "transform fixture_scaler example_frame = Inr (map snd example_frame) \<and>
   predict fixture_model (map snd example_frame) = Inr [1] \<and>
   predict_proba fixture_model (map snd example_frame) = Inr [[Finite 0.2, Finite 0.8]] \<and>
   prediction (on_click fixture_float fixture_storage example_inputs initial_state) =
     Some (Some \<lparr>class_label = therapeutic_label, probability = Finite 0.8\<rparr>)"
proof -
  have t: "transform fixture_scaler example_frame = Inr (map snd example_frame)"
    by (simp add: fixture_scaler_def)
  have m: "predict fixture_model (map snd example_frame) = Inr [1]"
    "predict_proba fixture_model (map snd example_frame) = Inr [[Finite 0.2, Finite 0.8]]"
    by (simp_all add: fixture_model_def constant_classifier_def)
  show ?thesis
    using end_to_end_example [OF t m, of fixture_float fixture_storage initial_state]
      load_fixture_storage truthy_fixtures t m
    by simp
qed




text \<open>
  C6, as the claim states it, fails: a mapping with a key beyond the thirteen is not
  rejected. The example mapping with one more key, \<^verbatim>\<open>Extra\<close>, gives the same calls and
  the same result as the example mapping itself.
\<close>

theorem extra_key_not_rejected:
  "map_of extra_inputs ''Extra'' = Some (PyFloat (Finite 1.0)) \<and>
   ''Extra'' \<notin> set feature_order \<and>
   run_pipeline fixture_float fixture_model fixture_scaler extra_inputs =
     ([Transform example_frame, Predict_proba (map snd example_frame),
       Predict (map snd example_frame)],
      Inr \<lparr>class_label = therapeutic_label, probability = Finite 0.8\<rparr>)"
  by (simp add: run_pipeline_def input_data_def feature_order_def extra_inputs_def
      example_inputs_def example_frame_def fixture_model_def constant_classifier_def
      fixture_scaler_def getitem_def select_probability_def select_class_def)

text \<open>
  C6, amended. The pipeline rejects every mapping that lacks one of the thirteen keys:
  the column selection raises \<^verbatim>\<open>KeyError\<close> before any call to the scaler or the
  classifier, and the handler displays it. Keys beyond the thirteen are not checked: two
  mappings that agree on the thirteen keys give the same calls and the same outcome.
\<close>

theorem key_validation:
  "(k \<in> set feature_order \<and> map_of inputs k = None \<longrightarrow>
      run_pipeline fl model scaler inputs = ([], Inl KeyError) \<and>
      (load_components_cached fs s = ((Some model, Some scaler), s1) \<and>
       truthy model \<and> truthy scaler \<longrightarrow>
         on_click fl fs inputs s = s1\<lparr>shown := shown s1 @ [Predict_failed KeyError]\<rparr>)) \<and>
   ((\<forall>c\<in>set feature_order. map_of inputs' c = map_of inputs c) \<longrightarrow>
      run_pipeline fl model scaler inputs' = run_pipeline fl model scaler inputs)"
proof (intro conjI impI)
  assume "k \<in> set feature_order \<and> map_of inputs k = None"
  then have "k \<in> set feature_order" "map_of inputs k = None"
    by simp_all
  then have "input_data fl inputs = Inl KeyError"
    by (rule input_data_missing)
  then show run: "run_pipeline fl model scaler inputs = ([], Inl KeyError)"
    by (rule run_pipeline_no_input)
  assume "load_components_cached fs s = ((Some model, Some scaler), s1) \<and>
      truthy model \<and> truthy scaler"
  then have l: "load_components_cached fs s = ((Some model, Some scaler), s1)"
    and t: "truthy model" "truthy scaler"
    by simp_all
  have "on_click fl fs inputs s =
      s1\<lparr>shown := shown s1 @ [Predict_failed KeyError], calls := calls s1 @ []\<rparr>"
    using l t run by (rule on_click_failed)
  then show "on_click fl fs inputs s = s1\<lparr>shown := shown s1 @ [Predict_failed KeyError]\<rparr>"
    by simp
next
  assume "\<forall>c\<in>set feature_order. map_of inputs' c = map_of inputs c"
  then show "run_pipeline fl model scaler inputs' = run_pipeline fl model scaler inputs"
    by (intro run_pipeline_cong input_data_cong)
qed

theorem key_validation_witness:
  "''Fg'' \<in> set feature_order \<and> map_of missing_inputs ''Fg'' = None \<and>
   run_pipeline fixture_float fixture_model fixture_scaler missing_inputs = ([], Inl KeyError) \<and>
   shown (on_click fixture_float fixture_storage missing_inputs initial_state)
     = [Predict_failed KeyError] \<and>
   run_pipeline fixture_float fixture_model fixture_scaler extra_inputs =
     run_pipeline fixture_float fixture_model fixture_scaler example_inputs"
proof -
  have m: "''Fg'' \<in> set feature_order" "map_of missing_inputs ''Fg'' = None"
    by (simp_all add: feature_order_def missing_inputs_def example_inputs_def)
  have x: "\<forall>c\<in>set feature_order. map_of extra_inputs c = map_of example_inputs c"
    by (simp add: feature_order_def extra_inputs_def example_inputs_def)
  let ?s1 = "initial_state\<lparr>cache := Some ([], (Some fixture_model, Some fixture_scaler)),
                loads := [model_path, scaler_path]\<rparr>"
  note w1 = key_validation [of "''Fg''" missing_inputs fixture_float fixture_model fixture_scaler
      fixture_storage initial_state ?s1 extra_inputs]
  note w2 = key_validation [of "''Fg''" example_inputs fixture_float fixture_model fixture_scaler
      fixture_storage initial_state ?s1 extra_inputs]
  have run: "run_pipeline fixture_float fixture_model fixture_scaler missing_inputs
      = ([], Inl KeyError)"
    using w1 m by blast
  have click: "on_click fixture_float fixture_storage missing_inputs initial_state
      = ?s1\<lparr>shown := shown ?s1 @ [Predict_failed KeyError]\<rparr>"
    using w1 m load_fixture_storage truthy_fixtures by blast
  have shown: "shown (on_click fixture_float fixture_storage missing_inputs initial_state)
     = [Predict_failed KeyError]"
    unfolding click by (simp add: initial_state_def)
  have "run_pipeline fixture_float fixture_model fixture_scaler extra_inputs =
     run_pipeline fixture_float fixture_model fixture_scaler example_inputs"
    using w2 x by blast
  then show ?thesis
    using m run shown by blast
qed

text \<open>
  C7. When neither artifact file exists, \<^verbatim>\<open>load_components\<close> stops at the first
  \<^verbatim>\<open>joblib.load\<close>, returns \<^verbatim>\<open>(None, None)\<close> and displays exactly one message: the fixed
  text of the handler for \<^verbatim>\<open>FileNotFoundError\<close>, which contains the names of both
  artifact files. That message is the one of the not-found handler and of no other
  exception, and it is not the message of the general load-failure handler.
\<close>

theorem missing_artifacts:
  assumes "fs model_path = None" and "fs scaler_path = None"
  shows "load_components fs = ([model_path], [Text files_not_found_text], (None, None)) \<and>
         sublist ''ifx_ensemble_model.pkl'' files_not_found_text \<and>
         sublist ''ifx_scaler.pkl'' files_not_found_text \<and>
         suffix ''ifx_ensemble_model.pkl'' model_path \<and>
         suffix ''ifx_scaler.pkl'' scaler_path \<and>
         (\<forall>e. load_handler e = Text files_not_found_text \<longleftrightarrow> e = FileNotFoundError) \<and>
         (\<forall>e. Text files_not_found_text \<noteq> Load_failed e) \<and>
         (cache s = None \<longrightarrow>
            load_components_cached fs s =
              ((None, None),
               s\<lparr>cache := Some ([Text files_not_found_text], (None, None)),
                 loads := loads s @ [model_path],
                 shown := shown s @ [Text files_not_found_text]\<rparr>))"
proof -
  have body: "load_components fs = ([model_path], [Text files_not_found_text], (None, None))"
    using assms(1) by (simp add: load_components_def joblib_load_def)
  have n1: "sublist ''ifx_ensemble_model.pkl'' files_not_found_text"
    by (simp add: files_not_found_text_def sublist_Cons_right)
  have n2: "sublist ''ifx_scaler.pkl'' files_not_found_text"
    by (simp add: files_not_found_text_def sublist_Cons_right)
  have p1: "suffix ''ifx_ensemble_model.pkl'' model_path"
    and p2: "suffix ''ifx_scaler.pkl'' scaler_path"
    by (simp_all add: model_path_def scaler_path_def suffix_def)
  have h: "load_handler e = Text files_not_found_text \<longleftrightarrow> e = FileNotFoundError" for e
    by (cases e) simp_all
  have c: "cache s = None \<longrightarrow>
      load_components_cached fs s =
        ((None, None),
         s\<lparr>cache := Some ([Text files_not_found_text], (None, None)),
           loads := loads s @ [model_path],
           shown := shown s @ [Text files_not_found_text]\<rparr>)"
    by (simp add: load_components_cached_def body)
  from body n1 n2 p1 p2 h c show ?thesis
    by simp
qed

theorem missing_artifacts_witness:
  "empty_storage model_path = None \<and> empty_storage scaler_path = None \<and>
   load_components empty_storage = ([model_path], [Text files_not_found_text], (None, None)) \<and>
   shown (on_click fixture_float empty_storage example_inputs initial_state)
     = [Text files_not_found_text]"
proof -
  have e: "empty_storage model_path = None" "empty_storage scaler_path = None"
    by (simp_all add: empty_storage_def)
  note w = missing_artifacts [OF e, of initial_state]
  have body: "load_components empty_storage
      = ([model_path], [Text files_not_found_text], (None, None))"
    using w by (rule conjunct1)
  have "load_components_cached empty_storage initial_state =
      ((None, None),
       initial_state\<lparr>cache := Some ([Text files_not_found_text], (None, None)),
         loads := loads initial_state @ [model_path],
         shown := shown initial_state @ [Text files_not_found_text]\<rparr>)"
    using w by (simp add: initial_state_def)
  then have "shown (on_click fixture_float empty_storage example_inputs initial_state)
      = [Text files_not_found_text]"
    by (simp add: on_click_def initial_state_def)
  with e body show ?thesis
    by simp
qed

text \<open>
  C8. When both objects are loaded and the input frame is built, an exception raised by
  \<^verbatim>\<open>transform\<close>, by \<^verbatim>\<open>predict_proba\<close> or by \<^verbatim>\<open>predict\<close> ends the \<^verbatim>\<open>try\<close> block and is
  handled there: pressing the button returns a state in which exactly one more message is
  displayed, the prediction error built from that very exception, and the stored result
  is as before.
\<close>

theorem prediction_errors_caught:
  assumes loaded: "load_components_cached fs s = ((Some model, Some scaler), s1)"
      "truthy model" "truthy scaler"
    and inp: "input_data fl inputs = Inr df"
    and raised:
      "transform scaler df = Inl e \<or>
       (\<exists>scaled. transform scaler df = Inr scaled \<and>
          (predict_proba model scaled = Inl e \<or>
           (\<exists>probas proba. predict_proba model scaled = Inr probas \<and>
              getitem probas 0 = Inr proba \<and> predict model scaled = Inl e)))"
  shows "\<exists>cs. on_click fl fs inputs s =
                s1\<lparr>shown := shown s1 @ [Predict_failed e], calls := calls s1 @ cs\<rparr> \<and>
              Transform df \<in> set cs \<and>
              prediction (on_click fl fs inputs s) = prediction s"
proof -
  from raised inp obtain cs where run: "run_pipeline fl model scaler inputs = (cs, Inl e)"
    and cs: "Transform df \<in> set cs"
    by (auto simp: run_pipeline_def)
  have click: "on_click fl fs inputs s =
      s1\<lparr>shown := shown s1 @ [Predict_failed e], calls := calls s1 @ cs\<rparr>"
    using loaded run by (rule on_click_failed)
  have "prediction s1 = prediction s"
    using load_components_cached_keeps [OF loaded(1)] by simp
  then have "prediction (on_click fl fs inputs s) = prediction s"
    unfolding click by simp
  with click cs show ?thesis
    by blast
qed

theorem prediction_errors_caught_witness:
  "input_data fixture_float example_inputs = Inr example_frame \<and>
   transform failing_scaler example_frame = Inl ValueError \<and>
   shown (on_click fixture_float failing_storage example_inputs initial_state)
     = [Predict_failed ValueError] \<and>
   prediction (on_click fixture_float failing_storage example_inputs initial_state) = None"
proof -
  let ?s1 = "initial_state\<lparr>cache := Some ([], (Some fixture_model, Some failing_scaler)),
                loads := [model_path, scaler_path]\<rparr>"
  have t: "transform failing_scaler example_frame = Inl ValueError"
    by (simp add: failing_scaler_def)
  then have r: "transform failing_scaler example_frame = Inl ValueError \<or>
       (\<exists>scaled. transform failing_scaler example_frame = Inr scaled \<and>
          (predict_proba fixture_model scaled = Inl ValueError \<or>
           (\<exists>probas proba. predict_proba fixture_model scaled = Inr probas \<and>
              getitem probas 0 = Inr proba \<and> predict fixture_model scaled = Inl ValueError)))"
    by simp
  from prediction_errors_caught [OF load_failing_storage truthy_fixtures(1)
      truthy_failing_scaler input_data_example r]
  obtain cs where click: "on_click fixture_float failing_storage example_inputs initial_state =
      ?s1\<lparr>shown := shown ?s1 @ [Predict_failed ValueError], calls := calls ?s1 @ cs\<rparr>"
    and same: "prediction (on_click fixture_float failing_storage example_inputs initial_state)
      = prediction initial_state"
    by blast
  have "shown (on_click fixture_float failing_storage example_inputs initial_state)
      = [Predict_failed ValueError]"
    unfolding click by (simp add: initial_state_def)
  moreover have "prediction (on_click fixture_float failing_storage example_inputs initial_state)
      = None"
    unfolding same by (simp add: initial_state_def)
  ultimately show ?thesis
    using t input_data_example by simp
qed

text \<open>
  C9. Starting with an empty cache, any number N of calls of the loader, N at least one,
  hands each artifact path to \<^verbatim>\<open>joblib.load\<close> at most once and only during the first call;
  every call returns the pair that the first call computed, whatever the storage holds at
  the later calls. When both artifacts unpickle, each of the two paths is read exactly
  once and all N calls return the same two objects.
\<close>

theorem idempotent_load:
  assumes "cache s = None"
  shows "\<exists>s'. load_many (fs # fss) s =
                (replicate (Suc (length fss)) (snd (snd (load_components fs))), s') \<and>
              loads s' = loads s @ fst (load_components fs) \<and>
              distinct (fst (load_components fs)) \<and>
              (fs model_path = Some (Pickled m) \<and> fs scaler_path = Some (Pickled sc) \<longrightarrow>
                 loads s' = loads s @ [model_path, scaler_path] \<and>
                 fst (load_many (fs # fss) s) = replicate (Suc (length fss)) (Some m, Some sc))"
proof -
  obtain paths msgs r where body: "load_components fs = (paths, msgs, r)"
    by (cases "load_components fs") auto
  let ?s1 = "s\<lparr>cache := Some (msgs, r), loads := loads s @ paths, shown := shown s @ msgs\<rparr>"
  have first: "load_components_cached fs s = (r, ?s1)"
    using assms by (simp add: load_components_cached_def body)
  have "cache ?s1 = Some (msgs, r)"
    by simp
  from load_many_cached [OF this, of fss] obtain s' where
    rest: "load_many fss ?s1 = (replicate (length fss) r, s')" and l: "loads s' = loads ?s1"
    by blast
  have all: "load_many (fs # fss) s = (replicate (Suc (length fss)) r, s')"
    using first rest by simp
  have d: "distinct (fst (load_components fs))"
    using paths_differ by (auto simp: load_components_def split: sum.splits)
  have ok: "fs model_path = Some (Pickled m) \<and> fs scaler_path = Some (Pickled sc) \<longrightarrow>
      paths = [model_path, scaler_path] \<and> r = (Some m, Some sc)"
    using body by (auto simp: load_components_def joblib_load_def)
  show ?thesis
    using all l d ok by (intro exI [of _ s']) (auto simp: body)
qed

theorem idempotent_load_witness:
  "cache initial_state = None \<and>
   fst (load_many [fixture_storage, empty_storage, failing_storage] initial_state) =
     [(Some fixture_model, Some fixture_scaler), (Some fixture_model, Some fixture_scaler),
      (Some fixture_model, Some fixture_scaler)] \<and>
   loads (snd (load_many [fixture_storage, empty_storage, failing_storage] initial_state)) =
     [model_path, scaler_path]"
proof -
  have c: "cache initial_state = None"
    by (simp add: initial_state_def)
  have f: "fixture_storage model_path = Some (Pickled fixture_model) \<and>
      fixture_storage scaler_path = Some (Pickled fixture_scaler)"
    using paths_differ by (auto simp: fixture_storage_def)
  from idempotent_load [OF c, of fixture_storage "[empty_storage, failing_storage]"
      fixture_model fixture_scaler] f
  obtain s' where
    "load_many [fixture_storage, empty_storage, failing_storage] initial_state =
       (replicate (Suc (length [empty_storage, failing_storage]))
          (snd (snd (load_components fixture_storage))), s')"
    "loads s' = loads initial_state @ [model_path, scaler_path]"
    "fst (load_many [fixture_storage, empty_storage, failing_storage] initial_state) =
       replicate (Suc (length [empty_storage, failing_storage]))
         (Some fixture_model, Some fixture_scaler)"
    by blast
  then show ?thesis
    using c by (simp add: initial_state_def numeral_2_eq_2)
qed

text \<open>
  C10. A run of the script changes the stored result only by storing the result of a
  \<^verbatim>\<open>try\<close> block that ran to its end: the button was pressed, both objects were loaded
  and truthy, and every step succeeded. When the block ends with an exception at any
  step, the stored result after the run is the one before it; and the initialisation at
  the top of the script only turns an absent entry into \<^verbatim>\<open>None\<close>.
\<close>

theorem failed_prediction_keeps_result:
  "(prediction (script_run fl fs inputs button s) \<noteq> prediction (init_session s) \<longrightarrow>
      button \<and>
      (\<exists>model scaler s1 cs res.
         load_components_cached fs (init_session s) = ((Some model, Some scaler), s1) \<and>
         truthy model \<and> truthy scaler \<and>
         run_pipeline fl model scaler inputs = (cs, Inr res) \<and>
         prediction (script_run fl fs inputs button s) = Some (Some res))) \<and>
   (load_components_cached fs (init_session s) = ((Some model, Some scaler), s1) \<and>
    snd (run_pipeline fl model scaler inputs) = Inl e \<longrightarrow>
      prediction (script_run fl fs inputs button s) = prediction (init_session s)) \<and>
   prediction (init_session s) = (case prediction s of None \<Rightarrow> Some None | Some p \<Rightarrow> Some p)"
proof (intro conjI impI)
  assume changed: "prediction (script_run fl fs inputs button s) \<noteq> prediction (init_session s)"
  then show button by (auto simp: script_run_def Let_def split: if_splits)
  then have run: "script_run fl fs inputs button s = on_click fl fs inputs (init_session s)"
    by (simp add: script_run_def Let_def)
  with changed have "prediction (on_click fl fs inputs (init_session s))
      \<noteq> prediction (init_session s)"
    by simp
  from on_click_prediction [OF this] show "\<exists>model scaler s1 cs res.
       load_components_cached fs (init_session s) = ((Some model, Some scaler), s1) \<and>
       truthy model \<and> truthy scaler \<and>
       run_pipeline fl model scaler inputs = (cs, Inr res) \<and>
       prediction (script_run fl fs inputs button s) = Some (Some res)"
    unfolding run .
next
  assume "load_components_cached fs (init_session s) = ((Some model, Some scaler), s1) \<and>
      snd (run_pipeline fl model scaler inputs) = Inl e"
  then have l: "load_components_cached fs (init_session s) = ((Some model, Some scaler), s1)"
    and f: "snd (run_pipeline fl model scaler inputs) = Inl e"
    by simp_all
  show "prediction (script_run fl fs inputs button s) = prediction (init_session s)"
  proof (rule ccontr)
    assume "prediction (script_run fl fs inputs button s) \<noteq> prediction (init_session s)"
    then have "button" and
      "prediction (on_click fl fs inputs (init_session s)) \<noteq> prediction (init_session s)"
      by (auto simp: script_run_def Let_def split: if_splits)
    from on_click_prediction [OF this(2)] l f show False
      by auto
  qed
next
  show "prediction (init_session s) = (case prediction s of None \<Rightarrow> Some None | Some p \<Rightarrow> Some p)"
    by (simp add: init_session_def split: option.splits)
qed

theorem failed_prediction_keeps_result_witness:
  "prediction (script_run fixture_float fixture_storage example_inputs True initial_state)
     \<noteq> prediction (init_session initial_state) \<and>
   (\<exists>model scaler cs res.
      run_pipeline fixture_float model scaler example_inputs = (cs, Inr res) \<and>
      prediction (script_run fixture_float fixture_storage example_inputs True initial_state)
        = Some (Some res)) \<and>
   prediction (script_run fixture_float fixture_storage text_inputs True
       (script_run fixture_float fixture_storage example_inputs True initial_state))
     = Some (Some \<lparr>class_label = therapeutic_label, probability = Finite 0.8\<rparr>)"
proof -
  let ?R = "\<lparr>class_label = therapeutic_label, probability = Finite 0.8\<rparr>"
  let ?cs = "[Transform example_frame, Predict_proba (map snd example_frame),
      Predict (map snd example_frame)]"
  let ?s0 = "initial_state\<lparr>prediction := Some None\<rparr>"
  let ?s1 = "?s0\<lparr>cache := Some ([], (Some fixture_model, Some fixture_scaler)),
      loads := [model_path, scaler_path]\<rparr>"
  let ?ok = "?s1\<lparr>prediction := Some (Some ?R), calls := ?cs\<rparr>"
  have init0: "init_session initial_state = ?s0"
    by (simp add: init_session_def initial_state_def)
  have load0: "load_components_cached fixture_storage ?s0 =
      ((Some fixture_model, Some fixture_scaler), ?s1)"
    by (simp add: load_components_cached_def load_components_def joblib_load_def
        fixture_storage_def initial_state_def paths_differ [symmetric])
  have "on_click fixture_float fixture_storage example_inputs ?s0 = ?ok"
    unfolding on_click_loaded [OF load0 truthy_fixtures]
    by (simp add: run_fixture initial_state_def)
  then have ok: "script_run fixture_float fixture_storage example_inputs True initial_state = ?ok"
    by (simp add: script_run_def Let_def init0)
  have changed: "prediction (script_run fixture_float fixture_storage example_inputs True
      initial_state) \<noteq> prediction (init_session initial_state)"
    unfolding ok init0 by simp
  note w1 = failed_prediction_keeps_result [of fixture_float fixture_storage example_inputs
      True initial_state]
  have stored: "\<exists>model scaler cs res.
      run_pipeline fixture_float model scaler example_inputs = (cs, Inr res) \<and>
      prediction (script_run fixture_float fixture_storage example_inputs True initial_state)
        = Some (Some res)"
    using w1 changed by blast
  have init1: "init_session ?ok = ?ok"
    by (simp add: init_session_def)
  have load1: "load_components_cached fixture_storage (init_session ?ok) =
      ((Some fixture_model, Some fixture_scaler), ?ok\<lparr>shown := shown ?ok @ []\<rparr>)"
    unfolding init1 by (simp add: load_components_cached_def)
  have fails: "snd (run_pipeline fixture_float fixture_model fixture_scaler text_inputs)
      = Inl ValueError"
    by (simp add: run_pipeline_def input_data_def feature_order_def text_inputs_def
        example_inputs_def fixture_float_def)
  note w2 = failed_prediction_keeps_result [of fixture_float fixture_storage text_inputs
      True ?ok fixture_model fixture_scaler "?ok\<lparr>shown := shown ?ok @ []\<rparr>" ValueError]
  have "prediction (script_run fixture_float fixture_storage text_inputs True ?ok)
      = prediction (init_session ?ok)"
    using w2 load1 fails by blast
  then have kept: "prediction (script_run fixture_float fixture_storage text_inputs True
       (script_run fixture_float fixture_storage example_inputs True initial_state))
     = Some (Some ?R)"
    unfolding ok init1 by simp
  from changed stored kept show ?thesis
    by blast
qed

end
